theory Spec2Isabelle
  imports Complex_Main "HOL-Library.Word" "HOL-Library.Multiset" "HOL-Library.Sublist"
begin

section \<open>Form-factor reweighting of R(D(*)) run 1 ntuples: the model\<close>

text \<open>
  The program is \<^verbatim>\<open>src/rdx-run1-sample.cpp\<close>. Its own functions are \<^verbatim>\<open>particle\<close>,
  \<^verbatim>\<open>calc_mm2_with_nu\<close>, \<^verbatim>\<open>calc_true_fit_vars\<close>, \<^verbatim>\<open>add_ham_part_Tau\<close> and \<^verbatim>\<open>reweight\<close>.
  They are written against three libraries that are not part of the repository:
  the arithmetic of \<^verbatim>\<open>Double_t\<close> and \<^verbatim>\<open>Int_t\<close>, ROOT's \<^verbatim>\<open>TVector3\<close> and
  \<^verbatim>\<open>TLorentzVector\<close>, and the HAMMER evaluator. The first two are modelled below from
  their published semantics; the evaluator is a parameter of the model.
\<close>

subsection \<open>\<^verbatim>\<open>Double_t\<close>: binary64 arithmetic\<close>

text \<open>
  A \<^verbatim>\<open>Double_t\<close> is a finite number, an infinity or a NaN. Every arithmetic operation
  computes the exact real result and rounds it to the nearest binary64 number, ties to
  the even significand; a rounded result of magnitude \<open>2 ^ 1024\<close> or more is an infinity.
  Subnormal numbers are covered (the exponent stops at \<open>- 1022\<close>). The sign of zero and
  the payload of a NaN are not modelled: there is one zero and one NaN, and a division
  of a nonzero number by zero takes the sign of the numerator.
\<close>

datatype double = Num real | PosInf | NegInf | NaN

definition round_half_even :: "real \<Rightarrow> int" where
  "round_half_even y =
     (let f = \<lfloor>y\<rfloor>; d = y - of_int f
      in if d < 1 / 2 then f else if 1 / 2 < d then f + 1 else if even f then f else f + 1)"

definition ulp64 :: "real \<Rightarrow> real" where
  "ulp64 x = 2 powi (max \<lfloor>log 2 \<bar>x\<bar>\<rfloor> (- 1022) - 52)"

definition rnd64 :: "real \<Rightarrow> real" where
  "rnd64 x = (if x = 0 then 0 else of_int (round_half_even (x / ulp64 x)) * ulp64 x)"

definition to_double :: "real \<Rightarrow> double" where
  "to_double x =
     (let r = rnd64 x
      in if 2 ^ 1024 \<le> r then PosInf else if r \<le> - (2 ^ 1024) then NegInf else Num r)"

fun dneg :: "double \<Rightarrow> double" where
  "dneg (Num x) = Num (- x)"
| "dneg PosInf = NegInf"
| "dneg NegInf = PosInf"
| "dneg NaN = NaN"

fun dadd :: "double \<Rightarrow> double \<Rightarrow> double" where
  "dadd (Num x) (Num y) = to_double (x + y)"
| "dadd (Num x) PosInf = PosInf"
| "dadd (Num x) NegInf = NegInf"
| "dadd PosInf (Num y) = PosInf"
| "dadd PosInf PosInf = PosInf"
| "dadd NegInf (Num y) = NegInf"
| "dadd NegInf NegInf = NegInf"
| "dadd PosInf NegInf = NaN"
| "dadd NegInf PosInf = NaN"
| "dadd NaN y = NaN"
| "dadd x NaN = NaN"

definition dsub :: "double \<Rightarrow> double \<Rightarrow> double" where
  "dsub x y = dadd x (dneg y)"

fun dmul :: "double \<Rightarrow> double \<Rightarrow> double" where
  "dmul (Num x) (Num y) = to_double (x * y)"
| "dmul (Num x) PosInf = (if x = 0 then NaN else if 0 < x then PosInf else NegInf)"
| "dmul (Num x) NegInf = (if x = 0 then NaN else if 0 < x then NegInf else PosInf)"
| "dmul PosInf (Num y) = (if y = 0 then NaN else if 0 < y then PosInf else NegInf)"
| "dmul NegInf (Num y) = (if y = 0 then NaN else if 0 < y then NegInf else PosInf)"
| "dmul PosInf PosInf = PosInf"
| "dmul PosInf NegInf = NegInf"
| "dmul NegInf PosInf = NegInf"
| "dmul NegInf NegInf = PosInf"
| "dmul NaN y = NaN"
| "dmul x NaN = NaN"

fun ddiv :: "double \<Rightarrow> double \<Rightarrow> double" where
  "ddiv (Num x) (Num y) =
     (if y = 0 then (if x = 0 then NaN else if 0 < x then PosInf else NegInf)
      else to_double (x / y))"
| "ddiv (Num x) PosInf = Num 0"
| "ddiv (Num x) NegInf = Num 0"
| "ddiv PosInf (Num y) = (if 0 \<le> y then PosInf else NegInf)"
| "ddiv NegInf (Num y) = (if 0 \<le> y then NegInf else PosInf)"
| "ddiv PosInf PosInf = NaN"
| "ddiv PosInf NegInf = NaN"
| "ddiv NegInf PosInf = NaN"
| "ddiv NegInf NegInf = NaN"
| "ddiv NaN y = NaN"
| "ddiv x NaN = NaN"

fun dsqrt :: "double \<Rightarrow> double" where
  "dsqrt (Num x) = (if x < 0 then NaN else to_double (sqrt x))"
| "dsqrt PosInf = PosInf"
| "dsqrt NegInf = NaN"
| "dsqrt NaN = NaN"

text \<open>The comparison \<^verbatim>\<open>x > y\<close>: false as soon as one side is a NaN.\<close>

fun dgt :: "double \<Rightarrow> double \<Rightarrow> bool" where
  "dgt (Num x) (Num y) = (y < x)"
| "dgt PosInf (Num y) = True"
| "dgt PosInf NegInf = True"
| "dgt (Num x) NegInf = True"
| "dgt x y = False"

text \<open>
  A value that a \<^verbatim>\<open>Double_t\<close> variable can hold: an infinity, a NaN, or a real number that
  rounding leaves alone. \<open>is_finite\<close> excludes the infinities and the NaN.
\<close>

fun is_double :: "double \<Rightarrow> bool" where
  "is_double (Num x) = (to_double x = Num x)"
| "is_double x = True"

fun is_finite :: "double \<Rightarrow> bool" where
  "is_finite (Num x) = True"
| "is_finite x = False"

subsection \<open>ROOT's \<^verbatim>\<open>TVector3\<close> and \<^verbatim>\<open>TLorentzVector\<close>\<close>

text \<open>
  The members and the operations the program calls, with the order of evaluation of
  ROOT's implementation: \<^verbatim>\<open>SetPxPyPzE\<close>, \<^verbatim>\<open>operator+=\<close>, \<^verbatim>\<open>operator-\<close>, \<^verbatim>\<open>M2\<close>
  (which is \<^verbatim>\<open>Mag2\<close>: \<^verbatim>\<open>T()*T() - fP.Mag2()\<close>), \<^verbatim>\<open>E\<close>, the unary minus of a
  \<^verbatim>\<open>TVector3\<close>, and \<^verbatim>\<open>Boost\<close>. A method that mutates its object is a function from
  the object to the mutated object.
\<close>

record TVector3 =
  fX :: double
  fY :: double
  fZ :: double

record TLorentzVector =
  fP :: TVector3
  fE :: double

definition SetPxPyPzE :: "double \<Rightarrow> double \<Rightarrow> double \<Rightarrow> double \<Rightarrow> TLorentzVector" where
  "SetPxPyPzE px py pz e = \<lparr>fP = \<lparr>fX = px, fY = py, fZ = pz\<rparr>, fE = e\<rparr>"

definition v3_neg :: "TVector3 \<Rightarrow> TVector3" where
  "v3_neg v = \<lparr>fX = dneg (fX v), fY = dneg (fY v), fZ = dneg (fZ v)\<rparr>"

definition v3_Mag2 :: "TVector3 \<Rightarrow> double" where
  "v3_Mag2 v = dadd (dadd (dmul (fX v) (fX v)) (dmul (fY v) (fY v))) (dmul (fZ v) (fZ v))"

definition lv_plus_eq :: "TLorentzVector \<Rightarrow> TLorentzVector \<Rightarrow> TLorentzVector" where
  "lv_plus_eq t q =
     \<lparr>fP = \<lparr>fX = dadd (fX (fP t)) (fX (fP q)), fY = dadd (fY (fP t)) (fY (fP q)),
            fZ = dadd (fZ (fP t)) (fZ (fP q))\<rparr>,
      fE = dadd (fE t) (fE q)\<rparr>"

definition lv_minus :: "TLorentzVector \<Rightarrow> TLorentzVector \<Rightarrow> TLorentzVector" where
  "lv_minus t q =
     \<lparr>fP = \<lparr>fX = dsub (fX (fP t)) (fX (fP q)), fY = dsub (fY (fP t)) (fY (fP q)),
            fZ = dsub (fZ (fP t)) (fZ (fP q))\<rparr>,
      fE = dsub (fE t) (fE q)\<rparr>"

definition M2 :: "TLorentzVector \<Rightarrow> double" where
  "M2 t = dsub (dmul (fE t) (fE t)) (v3_Mag2 (fP t))"

text \<open>
  \<^verbatim>\<open>TLorentzVector::Boost(bx, by, bz)\<close>:
  \<^verbatim>\<open>
  Double_t b2 = bx*bx + by*by + bz*bz;
  Double_t gamma = 1.0 / TMath::Sqrt(1.0 - b2);
  Double_t bp = bx*X() + by*Y() + bz*Z();
  Double_t gamma2 = b2 > 0 ? (gamma - 1.0)/b2 : 0.0;
  SetX(X() + gamma2*bp*bx + gamma*bx*T());
  SetY(Y() + gamma2*bp*by + gamma*by*T());
  SetZ(Z() + gamma2*bp*bz + gamma*bz*T());
  SetT(gamma*(T() + bp));
  \<close>
\<close>

definition Boost :: "TVector3 \<Rightarrow> TLorentzVector \<Rightarrow> TLorentzVector" where
  "Boost b t =
     (let bx = fX b; by = fY b; bz = fZ b;
          x = fX (fP t); y = fY (fP t); z = fZ (fP t); e = fE t;
          b2 = dadd (dadd (dmul bx bx) (dmul by by)) (dmul bz bz);
          gamma = ddiv (Num 1) (dsqrt (dsub (Num 1) b2));
          bp = dadd (dadd (dmul bx x) (dmul by y)) (dmul bz z);
          gamma2 = (if dgt b2 (Num 0) then ddiv (dsub gamma (Num 1)) b2 else Num 0)
      in \<lparr>fP = \<lparr>fX = dadd (dadd x (dmul (dmul gamma2 bp) bx)) (dmul (dmul gamma bx) e),
                 fY = dadd (dadd y (dmul (dmul gamma2 bp) by)) (dmul (dmul gamma by) e),
                 fZ = dadd (dadd z (dmul (dmul gamma2 bp) bz)) (dmul (dmul gamma bz) e)\<rparr>,
          fE = dmul gamma (dadd e bp)\<rparr>)"

subsection \<open>The variables of the program\<close>

text \<open>
  \<^verbatim>\<open>calc_true_fit_vars\<close> receives five objects by reference and one by value, and
  \<^verbatim>\<open>Boost\<close> mutates the object it is called on. The objects therefore live in a heap,
  one map from addresses per type (a \<^verbatim>\<open>Double_t&\<close> cannot refer to a \<^verbatim>\<open>TLorentzVector\<close>),
  and a reference is an address.
\<close>

type_synonym addr = nat

type_synonym Int_t = "32 word"
type_synonym UInt_t = "32 word"
type_synonym ULong64_t = "64 word"

record heap =
  ulongs :: "addr \<Rightarrow> ULong64_t"
  uints :: "addr \<Rightarrow> UInt_t"
  doubles :: "addr \<Rightarrow> double"
  vec3s :: "addr \<Rightarrow> TVector3"
  lvecs :: "addr \<Rightarrow> TLorentzVector"

subsection \<open>General helper functions\<close>

text \<open>
  \<^verbatim>\<open>calc_mm2_with_nu\<close>: the total starts at \<^verbatim>\<open>SetPxPyPzE(0, 0, 0, 0)\<close>, the loop adds
  each momentum of the list in turn, and the result is \<^verbatim>\<open>tot_mom.M2() / 1E6\<close>.
\<close>

definition calc_mm2_with_nu :: "TLorentzVector list \<Rightarrow> double" where
  "calc_mm2_with_nu momenta =
     (let tot_mom = SetPxPyPzE (Num 0) (Num 0) (Num 0) (Num 0);
          tot_mom = foldl lv_plus_eq tot_mom momenta
      in ddiv (M2 tot_mom) (Num 1000000))"

subsection \<open>Helper functions for B0 -> Dst Tau Nu\<close>

text \<open>
  \<^verbatim>\<open>calc_true_fit_vars(q2, el, b_lab_v, b_mom, dst_mom, mu_mom)\<close>: the first five
  parameters are references (addresses in the caller's heap); \<open>mu_mom\<close> is passed by
  value, so the function works on its own copy, which is no object of the heap.
\<close>

definition calc_true_fit_vars ::
  "heap \<Rightarrow> addr \<Rightarrow> addr \<Rightarrow> addr \<Rightarrow> addr \<Rightarrow> addr \<Rightarrow> TLorentzVector \<Rightarrow> heap" where
  "calc_true_fit_vars h q2 el b_lab_v b_mom dst_mom mu_mom =
     (let h = h\<lparr>doubles := (doubles h)
                 (q2 := ddiv (M2 (lv_minus (lvecs h b_mom) (lvecs h dst_mom))) (Num 1000000))\<rparr>;
          mu_mom = Boost (v3_neg (vec3s h b_lab_v)) mu_mom
      in h\<lparr>doubles := (doubles h)(el := ddiv (fE mu_mom) (Num 1000))\<rparr>)"


subsection \<open>The HAMMER interface\<close>

text \<open>
  \<^verbatim>\<open>Hammer::FourMomentum(pe, px, py, pz)\<close>, \<^verbatim>\<open>Hammer::Particle(four_mom, part_id)\<close> and
  \<^verbatim>\<open>Hammer::Process\<close>, as far as the program uses them: a process collects the particles
  in the order of the \<^verbatim>\<open>addParticle\<close> calls, each call returning the index of the
  particle it added, and the vertices in the order of the \<^verbatim>\<open>addVertex\<close> calls.
  \<^verbatim>\<open>Hammer::PdgId\<close> is \<^verbatim>\<open>int\<close>.
\<close>

record FourMomentum =
  mom_E :: double
  mom_px :: double
  mom_py :: double
  mom_pz :: double

record Particle =
  four_mom :: FourMomentum
  part_id :: Int_t

record Process =
  proc_particles :: "Particle list"
  proc_vertices :: "(nat \<times> nat list) list"

definition new_Process :: Process where
  "new_Process = \<lparr>proc_particles = [], proc_vertices = []\<rparr>"

definition addParticle :: "Process \<Rightarrow> Particle \<Rightarrow> nat \<times> Process" where
  "addParticle proc p =
     (length (proc_particles proc), proc\<lparr>proc_particles := proc_particles proc @ [p]\<rparr>)"

definition addVertex :: "Process \<Rightarrow> nat \<Rightarrow> nat list \<Rightarrow> Process" where
  "addVertex proc parent daughters =
     proc\<lparr>proc_vertices := proc_vertices proc @ [(parent, daughters)]\<rparr>"

text \<open>
  The evaluator itself (\<^verbatim>\<open>Hammer::Hammer\<close>) is a parameter: a state of type \<open>'h\<close> and
  the four calls the event loop makes on it. \<^verbatim>\<open>addProcess\<close> returns the identifier of
  the process, a \<^verbatim>\<open>size_t\<close>.
\<close>

record 'h hammer =
  initEvent :: "'h \<Rightarrow> 'h"
  addProcess :: "'h \<Rightarrow> Process \<Rightarrow> 64 word \<times> 'h"
  processEvent :: "'h \<Rightarrow> 'h"
  getWeight :: "'h \<Rightarrow> string \<Rightarrow> double"

text \<open>\<^verbatim>\<open>particle(pe, px, py, pz, pid)\<close>.\<close>

definition particle :: "double \<Rightarrow> double \<Rightarrow> double \<Rightarrow> double \<Rightarrow> Int_t \<Rightarrow> Particle" where
  "particle pe px py pz pid =
     (let four_mom = \<lparr>mom_E = pe, mom_px = px, mom_py = py, mom_pz = pz\<rparr>;
          part_id = pid
      in \<lparr>four_mom = four_mom, part_id = part_id\<rparr>)"

text \<open>\<^verbatim>\<open>add_ham_part_Tau\<close>: eleven particles, then four vertices.\<close>

definition add_ham_part_Tau ::
  "Process \<Rightarrow> Particle \<Rightarrow> Particle \<Rightarrow> Particle \<Rightarrow> Particle \<Rightarrow> Particle \<Rightarrow> Particle \<Rightarrow>
   Particle \<Rightarrow> Particle \<Rightarrow> Particle \<Rightarrow> Particle \<Rightarrow> Particle \<Rightarrow> Process" where
  "add_ham_part_Tau proc B0 Dst D0 SlowPi K Pi Tau Anti_Nu_Tau Nu_Tau Mu Anti_Nu_Mu =
     (let (B0_idx, proc) = addParticle proc B0;
          (Dst_idx, proc) = addParticle proc Dst;
          (SlowPi_idx, proc) = addParticle proc SlowPi;
          (D0_idx, proc) = addParticle proc D0;
          (K_idx, proc) = addParticle proc K;
          (Pi_idx, proc) = addParticle proc Pi;
          (Mu_idx, proc) = addParticle proc Mu;
          (Tau_idx, proc) = addParticle proc Tau;
          (Anti_Nu_Mu_idx, proc) = addParticle proc Anti_Nu_Mu;
          (Anti_Nu_Tau_idx, proc) = addParticle proc Anti_Nu_Tau;
          (Nu_Tau_idx, proc) = addParticle proc Nu_Tau;
          proc = addVertex proc B0_idx [Dst_idx, Tau_idx, Anti_Nu_Tau_idx];
          proc = addVertex proc Tau_idx [Mu_idx, Nu_Tau_idx, Anti_Nu_Mu_idx];
          proc = addVertex proc Dst_idx [D0_idx, SlowPi_idx]
      in addVertex proc D0_idx [K_idx, Pi_idx])"

subsection \<open>Input and output tables\<close>

text \<open>
  One row of the input tree: the branches \<^verbatim>\<open>eventNumber\<close>, \<^verbatim>\<open>runNumber\<close> and, for each
  of the eleven particles, \<^verbatim>\<open>_id\<close>, \<^verbatim>\<open>_true_pe\<close>, \<^verbatim>\<open>_true_px\<close>, \<^verbatim>\<open>_true_py\<close>,
  \<^verbatim>\<open>_true_pz\<close>, grouped by particle. One row of the output tree: the six branches the
  program defines.
\<close>

record truth =
  br_id :: Int_t
  true_pe :: double
  true_px :: double
  true_py :: double
  true_pz :: double

record event =
  eventNumber :: ULong64_t
  runNumber :: UInt_t
  ev_b :: truth
  ev_dst :: truth
  ev_d0 :: truth
  ev_mu :: truth
  ev_k :: truth
  ev_pi :: truth
  ev_spi :: truth
  ev_tau :: truth
  ev_anu_tau :: truth
  ev_nu_tau :: truth
  ev_anu_mu :: truth

record row =
  row_eventNumber :: ULong64_t
  row_runNumber :: UInt_t
  row_w_ff :: double
  row_q2_true :: double
  row_mm2_true :: double
  row_el_true :: double

text \<open>
  The addresses of the variables of \<^verbatim>\<open>reweight\<close> that are bound to an output branch or
  passed by reference. \<^verbatim>\<open>output.Fill()\<close> appends a row read from the branch addresses.
\<close>

abbreviation (input) eventNumber_out :: addr where "eventNumber_out \<equiv> 0"
abbreviation (input) runNumber_out :: addr where "runNumber_out \<equiv> 0"
abbreviation (input) w_ff_out :: addr where "w_ff_out \<equiv> 0"
abbreviation (input) q2_out :: addr where "q2_out \<equiv> 1"
abbreviation (input) mm2_out :: addr where "mm2_out \<equiv> 2"
abbreviation (input) el_out :: addr where "el_out \<equiv> 3"
abbreviation (input) b_lab_v :: addr where "b_lab_v \<equiv> 0"
abbreviation (input) b_mom :: addr where "b_mom \<equiv> 0"
abbreviation (input) dst_mom :: addr where "dst_mom \<equiv> 1"
abbreviation (input) mu_mom :: addr where "mu_mom \<equiv> 2"

definition Fill :: "heap \<Rightarrow> row list \<Rightarrow> row list" where
  "Fill h out =
     out @ [\<lparr>row_eventNumber = ulongs h eventNumber_out, row_runNumber = uints h runNumber_out,
              row_w_ff = doubles h w_ff_out, row_q2_true = doubles h q2_out,
              row_mm2_true = doubles h mm2_out, row_el_true = doubles h el_out\<rparr>]"

subsection \<open>Main reweighting routine\<close>

text \<open>
  Lines 209 to 215, the fix of the 'wrong-sign' IDs. Both codes are \<^verbatim>\<open>Int_t\<close>, read as
  two's complement; their product is formed in 32 bits and wraps around where the exact
  product does not fit.
\<close>

definition b_id_fix :: "Int_t \<Rightarrow> Int_t \<Rightarrow> Int_t" where
  "b_id_fix b_id dst_id = (if 0 <s b_id * dst_id then - b_id else b_id)"

text \<open>What the program prints on \<^verbatim>\<open>std::cout\<close>: the weight and the event number.\<close>

datatype diagnostic = Problematic_weight double ULong64_t

record 'h run_state =
  ham :: 'h
  vars :: heap
  output_tree :: "row list"
  cout :: "diagnostic list"

text \<open>\<^verbatim>\<open>x_mom.SetPxPyPzE(*x_true_px, *x_true_py, *x_true_pz, *x_true_pe)\<close>.\<close>

definition truth_mom :: "truth \<Rightarrow> TLorentzVector" where
  "truth_mom t = SetPxPyPzE (true_px t) (true_py t) (true_pz t) (true_pe t)"

text \<open>Lines 217 to 242: q2, el and mm2.\<close>

definition compute_q2_mm2_el :: "event \<Rightarrow> heap \<Rightarrow> heap" where
  "compute_q2_mm2_el ev h =
     (let v_x = ddiv (true_px (ev_b ev)) (true_pe (ev_b ev));
          v_y = ddiv (true_py (ev_b ev)) (true_pe (ev_b ev));
          v_z = ddiv (true_pz (ev_b ev)) (true_pe (ev_b ev));
          h = h\<lparr>vec3s := (vec3s h)(b_lab_v := \<lparr>fX = v_x, fY = v_y, fZ = v_z\<rparr>)\<rparr>;
          h = h\<lparr>lvecs := (lvecs h)(b_mom := truth_mom (ev_b ev))\<rparr>;
          h = h\<lparr>lvecs := (lvecs h)(dst_mom := truth_mom (ev_dst ev))\<rparr>;
          h = h\<lparr>lvecs := (lvecs h)(mu_mom := truth_mom (ev_mu ev))\<rparr>;
          h = calc_true_fit_vars h q2_out el_out b_lab_v b_mom dst_mom (lvecs h mu_mom);
          nu_tau_mom = truth_mom (ev_nu_tau ev);
          anu_tau_mom = truth_mom (ev_anu_tau ev);
          anu_mu_mom = truth_mom (ev_anu_mu ev)
      in h\<lparr>doubles := (doubles h)
             (mm2_out := calc_mm2_with_nu [nu_tau_mom, anu_tau_mom, anu_mu_mom])\<rparr>)"

text \<open>Lines 246 to 272: the MC truth particles and the process.\<close>

definition truth_particle :: "truth \<Rightarrow> Int_t \<Rightarrow> Particle" where
  "truth_particle t pid = particle (true_pe t) (true_px t) (true_py t) (true_pz t) pid"

definition define_process :: "event \<Rightarrow> Process" where
  "define_process ev =
     (let b_id_fix = b_id_fix (br_id (ev_b ev)) (br_id (ev_dst ev));
          B0 = truth_particle (ev_b ev) b_id_fix;
          Dst = truth_particle (ev_dst ev) (br_id (ev_dst ev));
          SlowPi = truth_particle (ev_spi ev) (br_id (ev_spi ev));
          D0 = truth_particle (ev_d0 ev) (br_id (ev_d0 ev));
          K = truth_particle (ev_k ev) (br_id (ev_k ev));
          Pi = truth_particle (ev_pi ev) (br_id (ev_pi ev));
          Mu = truth_particle (ev_mu ev) (br_id (ev_mu ev));
          Tau = truth_particle (ev_tau ev) (br_id (ev_tau ev));
          Anti_Nu_Mu = truth_particle (ev_anu_mu ev) (br_id (ev_anu_mu ev));
          Anti_Nu_Tau = truth_particle (ev_anu_tau ev) (br_id (ev_anu_tau ev));
          Nu_Tau = truth_particle (ev_nu_tau ev) (br_id (ev_nu_tau ev))
      in add_ham_part_Tau new_Process B0 Dst D0 SlowPi K Pi Tau Anti_Nu_Tau Nu_Tau Mu Anti_Nu_Mu)"

text \<open>One pass through the body of the \<^verbatim>\<open>while (reader.Next())\<close> loop.\<close>

definition reweight_event :: "'h hammer \<Rightarrow> event \<Rightarrow> 'h run_state \<Rightarrow> 'h run_state" where
  "reweight_event api ev s =
     (let h = vars s;
          h = h\<lparr>ulongs := (ulongs h)(eventNumber_out := eventNumber ev)\<rparr>;
          h = h\<lparr>uints := (uints h)(runNumber_out := runNumber ev)\<rparr>;
          h = compute_q2_mm2_el ev h;
          proc = define_process ev;
          hm = initEvent api (ham s);
          (proc_id, hm) = addProcess api hm proc
      in if proc_id \<noteq> 0 then
           (let hm = processEvent api hm;
                h = h\<lparr>doubles := (doubles h)(w_ff_out := getWeight api hm ''SemiTauonic'')\<rparr>;
                c = (if dgt (doubles h w_ff_out) (Num 10)
                     then cout s @ [Problematic_weight (doubles h w_ff_out) (eventNumber ev)]
                     else cout s)
            in \<lparr>ham = hm, vars = h, output_tree = Fill h (output_tree s), cout = c\<rparr>)
         else \<lparr>ham = hm, vars = h, output_tree = output_tree s, cout = cout s\<rparr>)"

fun reweight_loop :: "'h hammer \<Rightarrow> event list \<Rightarrow> 'h run_state \<Rightarrow> 'h run_state" where
  "reweight_loop api [] s = s"
| "reweight_loop api (ev # evs) s = reweight_loop api evs (reweight_event api ev s)"

text \<open>
  \<^verbatim>\<open>reweight\<close>: \<open>hm\<close> is the evaluator after \<^verbatim>\<open>ham.initRun()\<close>, \<open>h\<close> holds the variables
  before the loop (the output variables are not initialised), \<open>evs\<close> are the rows of the
  input tree; \<open>start\<close> is the state in which the loop is entered, with an empty output
  tree and nothing printed. The result is the output tree as written at the end and the
  text printed.
\<close>

definition start :: "'h \<Rightarrow> heap \<Rightarrow> 'h run_state" where
  "start hm h = \<lparr>ham = hm, vars = h, output_tree = [], cout = []\<rparr>"

definition reweight :: "'h hammer \<Rightarrow> 'h \<Rightarrow> heap \<Rightarrow> event list \<Rightarrow> row list \<times> diagnostic list" where
  "reweight api hm h evs =
     (let s = reweight_loop api evs (start hm h)
      in (output_tree s, cout s))"

section \<open>The quantities of the specification\<close>

text \<open>
  The kinematic derivator as the specification words it: a four-momentum is an energy
  and three momentum components; its invariant mass-squared is the energy squared minus
  the squared magnitude of the momentum; \<open>momentum_transfer_squared\<close> is the invariant
  mass-squared of parent minus resonance, divided by \<open>1e6\<close>.
\<close>

definition four_momentum_difference :: "TLorentzVector \<Rightarrow> TLorentzVector \<Rightarrow> TLorentzVector" where
  "four_momentum_difference p r =
     SetPxPyPzE (dsub (fX (fP p)) (fX (fP r))) (dsub (fY (fP p)) (fY (fP r)))
       (dsub (fZ (fP p)) (fZ (fP r))) (dsub (fE p) (fE r))"

definition invariant_mass_squared :: "TLorentzVector \<Rightarrow> double" where
  "invariant_mass_squared p =
     dsub (dmul (fE p) (fE p))
       (dadd (dadd (dmul (fX (fP p)) (fX (fP p))) (dmul (fY (fP p)) (fY (fP p))))
          (dmul (fZ (fP p)) (fZ (fP p))))"

definition momentum_transfer_squared :: "TLorentzVector \<Rightarrow> TLorentzVector \<Rightarrow> double" where
  "momentum_transfer_squared parent resonance =
     ddiv (invariant_mass_squared (four_momentum_difference parent resonance)) (Num 1000000)"

text \<open>
  Two type codes have the same sign when both are positive or both are negative, the
  codes read as two's complement.
\<close>

definition same_sign :: "Int_t \<Rightarrow> Int_t \<Rightarrow> bool" where
  "same_sign b_id dst_id \<longleftrightarrow> (0 <s b_id \<and> 0 <s dst_id) \<or> (b_id <s 0 \<and> dst_id <s 0)"

text \<open>
  The exact product of two codes fits the 32 bits of an \<^verbatim>\<open>Int_t\<close>.
\<close>

definition product_fits :: "Int_t \<Rightarrow> Int_t \<Rightarrow> bool" where
  "product_fits b_id dst_id \<longleftrightarrow>
     - (2 ^ 31) \<le> sint b_id * sint dst_id \<and> sint b_id * sint dst_id < 2 ^ 31"

text \<open>
  What the evaluator answers for one event in a given state of the run: the identifier
  that the submission returns, and the weight that is retrieved after the evaluation.
  \<open>run_trace\<close> lists, for each event of the input in order, the event with these two
  answers, the state being the one the loop has reached at that event.
\<close>

definition submission :: "'h hammer \<Rightarrow> event \<Rightarrow> 'h run_state \<Rightarrow> 64 word" where
  "submission api ev s = fst (addProcess api (initEvent api (ham s)) (define_process ev))"

definition retrieved_weight :: "'h hammer \<Rightarrow> event \<Rightarrow> 'h run_state \<Rightarrow> double" where
  "retrieved_weight api ev s =
     getWeight api
       (processEvent api (snd (addProcess api (initEvent api (ham s)) (define_process ev))))
       ''SemiTauonic''"

fun run_trace :: "'h hammer \<Rightarrow> event list \<Rightarrow> 'h run_state \<Rightarrow> (event \<times> 64 word \<times> double) list" where
  "run_trace api [] s = []"
| "run_trace api (ev # evs) s =
     (ev, submission api ev s, retrieved_weight api ev s)
       # run_trace api evs (reweight_event api ev s)"

text \<open>
  An accumulation is exact when every addition it performs is one of two finite numbers
  whose exact sum is a binary64 number, so that no addition rounds.
\<close>

fun exact_add :: "double \<Rightarrow> double \<Rightarrow> bool" where
  "exact_add (Num x) (Num y) = (to_double (x + y) = Num (x + y))"
| "exact_add x y = False"

fun exact_fold :: "double \<Rightarrow> double list \<Rightarrow> bool" where
  "exact_fold t [] = True"
| "exact_fold t (x # xs) = (exact_add t x \<and> exact_fold (dadd t x) xs)"

fun value_of :: "double \<Rightarrow> real" where
  "value_of (Num x) = x"
| "value_of x = 0"

definition exact_sums :: "TLorentzVector list \<Rightarrow> bool" where
  "exact_sums momenta \<longleftrightarrow>
     exact_fold (Num 0) (map (\<lambda>q. fX (fP q)) momenta) \<and>
     exact_fold (Num 0) (map (\<lambda>q. fY (fP q)) momenta) \<and>
     exact_fold (Num 0) (map (\<lambda>q. fZ (fP q)) momenta) \<and>
     exact_fold (Num 0) (map fE momenta)"

section \<open>Sample data\<close>

text \<open>
  Concrete inputs on which the theorems below are instantiated: particles at rest with a
  given code and energy, an event of the decay chain with a chosen parent code, resonance
  code and parent energy, variables that hold zero, and a stand-in for the evaluator that
  accepts a process when its first particle has code 511 and weights it by the energy of
  that particle.
\<close>

definition sample_truth :: "Int_t \<Rightarrow> real \<Rightarrow> truth" where
  "sample_truth i e =
     \<lparr>br_id = i, true_pe = Num e, true_px = Num 0, true_py = Num 0, true_pz = Num 0\<rparr>"

definition sample_event :: "ULong64_t \<Rightarrow> Int_t \<Rightarrow> Int_t \<Rightarrow> real \<Rightarrow> event" where
  "sample_event n b_id dst_id b_pe =
     \<lparr>eventNumber = n, runNumber = 1,
      ev_b = sample_truth b_id b_pe, ev_dst = sample_truth dst_id 2010,
      ev_d0 = sample_truth (- 421) 1865, ev_mu = sample_truth (- 13) 1000,
      ev_k = sample_truth 321 494, ev_pi = sample_truth (- 211) 140,
      ev_spi = sample_truth (- 211) 140, ev_tau = sample_truth (- 15) 1777,
      ev_anu_tau = sample_truth (- 16) 1, ev_nu_tau = sample_truth 16 2,
      ev_anu_mu = sample_truth (- 14) 3\<rparr>"

definition sample_heap :: heap where
  "sample_heap =
     \<lparr>ulongs = (\<lambda>a. 0), uints = (\<lambda>a. 0), doubles = (\<lambda>a. Num 0),
      vec3s = (\<lambda>a. \<lparr>fX = Num 0, fY = Num 0, fZ = Num 0\<rparr>),
      lvecs = (\<lambda>a. SetPxPyPzE (Num 0) (Num 0) (Num 0) (Num 0))\<rparr>"

definition sample_hammer :: "double hammer" where
  "sample_hammer =
     \<lparr>initEvent = (\<lambda>hm. hm),
      addProcess = (\<lambda>hm proc.
        (if part_id (hd (proc_particles proc)) = 511 then 1 else 0,
         mom_E (four_mom (hd (proc_particles proc))))),
      processEvent = (\<lambda>hm. hm),
      getWeight = (\<lambda>hm scheme. hm)\<rparr>"

section \<open>Facts about the arithmetic\<close>

subsection \<open>Rounding\<close>

lemma rnd64_0: "rnd64 0 = 0"
  by (simp add: rnd64_def)

lemma to_double_0: "to_double 0 = Num 0"
  by (simp add: to_double_def rnd64_0)

lemma round_half_even_of_int: "round_half_even (of_int m) = m"
  by (simp add: round_half_even_def)

lemma floor_log2_iff:
  assumes "0 < x"
  shows "\<lfloor>log 2 x\<rfloor> = e \<longleftrightarrow> 2 powi e \<le> x \<and> x < 2 powi (e + 1)"
proof -
  have "(2::real) powr real_of_int e = 2 powi e"
    and "(2::real) powr real_of_int (e + 1) = 2 powi (e + 1)"
    using powr_real_of_int' [of 2 e] powr_real_of_int' [of 2 "e + 1"] by simp_all
  with floor_log_eq_powr_iff [of x 2 e] assms show ?thesis by simp
qed

lemma ulp64_eval:
  assumes "2 powi e \<le> \<bar>x\<bar>" "\<bar>x\<bar> < 2 powi (e + 1)" "- 1022 \<le> e"
  shows "ulp64 x = 2 powi (e - 52)"
proof -
  have "0 < (2::real) powi e" by simp
  with assms have pos: "0 < \<bar>x\<bar>" by linarith
  from floor_log2_iff [OF pos, of e] assms have "\<lfloor>log 2 \<bar>x\<bar>\<rfloor> = e" by simp
  with assms show ?thesis by (simp add: ulp64_def)
qed

lemma ulp64_pos: "0 < ulp64 x"
  by (simp add: ulp64_def)

lemma rnd64_exact:
  assumes "x / ulp64 x = of_int m"
  shows "rnd64 x = x"
proof (cases "x = 0")
  case True then show ?thesis by (simp add: rnd64_0)
next
  case False
  have "of_int m * ulp64 x = x"
    using assms ulp64_pos [of x] by (simp add: field_simps)
  with False show ?thesis
    by (simp add: rnd64_def assms round_half_even_of_int)
qed

lemma rnd64_eval:
  assumes "2 powi e \<le> \<bar>x\<bar>" "\<bar>x\<bar> < 2 powi (e + 1)" "- 1022 \<le> e"
  shows "rnd64 x = of_int (round_half_even (x / 2 powi (e - 52))) * 2 powi (e - 52)"
proof -
  have "0 < (2::real) powi e" by simp
  with assms have "x \<noteq> 0" by linarith
  then show ?thesis by (simp add: rnd64_def ulp64_eval [OF assms])
qed

lemma rnd64_of_int:
  assumes "\<bar>n\<bar> < 2 ^ 53"
  shows "rnd64 (of_int n) = of_int n"
proof (cases "n = 0")
  case True then show ?thesis by (simp add: rnd64_0)
next
  case False
  define x :: real where "x = of_int n"
  define e where "e = \<lfloor>log 2 \<bar>x\<bar>\<rfloor>"
  have x1: "1 \<le> \<bar>x\<bar>" using False by (simp add: x_def flip: of_int_abs)
  have x2: "\<bar>x\<bar> < 2 powi 53"
    using assms of_int_less_iff [of "\<bar>n\<bar>" "2 ^ 53", where ?'a = real] by (simp add: x_def)
  have pos: "0 < \<bar>x\<bar>" using x1 by linarith
  from floor_log2_iff [OF pos, of e] have lo: "2 powi e \<le> \<bar>x\<bar>" and hi: "\<bar>x\<bar> < 2 powi (e + 1)"
    by (simp_all add: e_def)
  have "(2::real) powi e < 2 powi 53" using lo x2 by linarith
  then have e53: "e < 53" by (rule power_int_le_imp_less_exp [rotated]) simp_all
  have e0: "0 \<le> e"
  proof (rule ccontr)
    assume "\<not> 0 \<le> e"
    then have "e + 1 \<le> 0" by simp
    then have "(2::real) powi (e + 1) \<le> 2 powi 0" by (rule power_int_increasing) simp
    with hi x1 show False by simp
  qed
  have u: "ulp64 x = 2 powi (e - 52)"
    using ulp64_eval [OF lo hi] e0 by simp
  have "x / ulp64 x = x * 2 powi (52 - e)"
    by (simp add: u power_int_diff field_simps)
  also have "\<dots> = x * 2 ^ nat (52 - e)"
    using e53 by (simp add: power_int_def)
  also have "\<dots> = of_int (n * 2 ^ nat (52 - e))" by (simp add: x_def)
  finally show ?thesis unfolding x_def [symmetric] by (rule rnd64_exact)
qed

lemma to_double_of_int:
  assumes "\<bar>n\<bar> < 2 ^ 53"
  shows "to_double (of_int n) = Num (of_int n)"
proof -
  have "\<bar>real_of_int n\<bar> < 2 ^ 53"
    using assms of_int_less_iff [of "\<bar>n\<bar>" "2 ^ 53", where ?'a = real] by simp
  moreover have "(2::real) ^ 53 < 2 ^ 1024" by simp
  ultimately have "\<bar>real_of_int n\<bar> < 2 ^ 1024" by linarith
  then show ?thesis
    by (simp add: to_double_def rnd64_of_int [OF assms] abs_less_iff not_le)
qed

lemma to_double_1: "to_double 1 = Num 1"
  using to_double_of_int [of 1] by simp

lemma to_double_numeral:
  "\<bar>numeral k :: int\<bar> < 2 ^ 53 \<Longrightarrow> to_double (numeral k) = Num (numeral k)"
  using to_double_of_int [of "numeral k"] by simp

subsection \<open>Infinities and NaN\<close>

lemma dadd_NaN_right [simp]: "dadd x NaN = NaN"
  by (cases x) simp_all

lemma dmul_NaN_right [simp]: "dmul x NaN = NaN"
  by (cases x) simp_all

lemma ddiv_NaN_right [simp]: "ddiv x NaN = NaN"
  by (cases x) simp_all

lemma ddiv_zero_not_finite: "\<not> is_finite (ddiv x (Num 0))"
  by (cases x) simp_all

lemma dneg_not_finite: "is_finite (dneg x) = is_finite x"
  by (cases x) simp_all

lemma Boost_not_finite:
  assumes "\<not> is_finite (fX b)" "\<not> is_finite (fY b)" "\<not> is_finite (fZ b)"
  shows "fE (Boost b t) = NaN"
proof -
  have sq: "dmul x x = PosInf \<or> dmul x x = NaN" if "\<not> is_finite x" for x
    using that by (cases x) simp_all
  define b2 where "b2 = dadd (dadd (dmul (fX b) (fX b)) (dmul (fY b) (fY b))) (dmul (fZ b) (fZ b))"
  have "b2 = PosInf \<or> b2 = NaN"
    using sq [OF assms(1)] sq [OF assms(2)] sq [OF assms(3)] by (auto simp: b2_def)
  then have "ddiv (Num 1) (dsqrt (dsub (Num 1) b2)) = NaN"
    by (auto simp: dsub_def)
  then show ?thesis by (simp add: Boost_def Let_def b2_def)
qed

lemma Boost_zero_energy:
  assumes "is_finite x" "is_finite y" "is_finite z" "is_double e"
  shows "fE (Boost \<lparr>fX = Num 0, fY = Num 0, fZ = Num 0\<rparr> \<lparr>fP = \<lparr>fX = x, fY = y, fZ = z\<rparr>, fE = e\<rparr>) = e"
proof -
  obtain x' y' z' where [simp]: "x = Num x'" "y = Num y'" "z = Num z'"
    using assms(1-3) by (cases x; cases y; cases z) auto
  show ?thesis using assms(4)
    by (cases e) (simp_all add: Boost_def Let_def dsub_def to_double_0 to_double_1)
qed

subsection \<open>Rounding at some numbers\<close>

lemma rnd64_2_53: "rnd64 9007199254740992 = 9007199254740992"
  using rnd64_eval [of 53 9007199254740992] by (simp add: round_half_even_def)

lemma rnd64_2_53_plus_1: "rnd64 9007199254740993 = 9007199254740992"
  using rnd64_eval [of 53 9007199254740993] by (simp add: round_half_even_def)

lemma rnd64_2_53_plus_2: "rnd64 9007199254740994 = 9007199254740994"
  using rnd64_eval [of 53 9007199254740994] by (simp add: round_half_even_def)

lemma rnd64_2_106: "rnd64 81129638414606681695789005144064 = 81129638414606681695789005144064"
  using rnd64_eval [of 106 81129638414606681695789005144064] by (simp add: round_half_even_def)

lemma rnd64_square: "rnd64 81129638414606717724586024108036 = 81129638414606717724586024108032"
  using rnd64_eval [of 106 81129638414606717724586024108036] by (simp add: round_half_even_def)

lemma rnd64_2_55: "rnd64 36028797018963968 = 36028797018963968"
  using rnd64_eval [of 55 36028797018963968] by (simp add: round_half_even_def)

lemma rnd64_quotient: "rnd64 (562949953421312 / 15625) = 4722366482869645 / 131072"
  using rnd64_eval [of 35 "562949953421312 / 15625"]
  by (simp add: round_half_even_def power_int_minus)

lemma rnd64_1: "rnd64 1 = 1"
  using rnd64_of_int [of 1] by simp

lemma rnd64_2: "rnd64 2 = 2"
  using rnd64_of_int [of 2] by simp

lemmas rnd64_samples = rnd64_0 rnd64_1 rnd64_2 rnd64_2_53 rnd64_2_53_plus_1 rnd64_2_53_plus_2
  rnd64_2_106 rnd64_square rnd64_2_55 rnd64_quotient

subsection \<open>Exact accumulation\<close>

lemma exact_add_Num:
  assumes "exact_add (Num a) x"
  shows "x = Num (value_of x) \<and> dadd (Num a) x = Num (a + value_of x)"
  using assms by (cases x) simp_all

lemma exact_fold_sum:
  "exact_fold (Num a) xs \<Longrightarrow> foldl dadd (Num a) xs = Num (a + sum_list (map value_of xs))"
proof (induction xs arbitrary: a)
  case Nil
  then show ?case by simp
next
  case (Cons x xs)
  from Cons.prems have e: "exact_add (Num a) x" and f: "exact_fold (dadd (Num a) x) xs"
    by simp_all
  from exact_add_Num [OF e] have d: "dadd (Num a) x = Num (a + value_of x)" by simp
  from f have "exact_fold (Num (a + value_of x)) xs" by (simp only: d)
  from Cons.IH [OF this] show ?case by (simp add: d add.assoc)
qed

lemma sum_list_permuted:
  fixes f :: "'a \<Rightarrow> real"
  assumes "mset ps = mset qs"
  shows "sum_list (map f ps) = sum_list (map f qs)"
proof -
  have "mset (map f ps) = mset (map f qs)" using assms by simp
  then have "sum_mset (mset (map f ps)) = sum_mset (mset (map f qs))" by simp
  then show ?thesis by (simp only: sum_mset_sum_list)
qed

section \<open>Facts about the program\<close>

lemma sint_mult_exact:
  fixes a b :: Int_t
  assumes "product_fits a b"
  shows "sint (a * b) = sint a * sint b"
  using assms by (simp add: product_fits_def sint_word_ariths signed_take_bit_int_eq_self)

lemma define_process_ids:
  "map part_id (proc_particles (define_process ev)) =
     [b_id_fix (br_id (ev_b ev)) (br_id (ev_dst ev)), br_id (ev_dst ev), br_id (ev_spi ev),
      br_id (ev_d0 ev), br_id (ev_k ev), br_id (ev_pi ev), br_id (ev_mu ev), br_id (ev_tau ev),
      br_id (ev_anu_mu ev), br_id (ev_anu_tau ev), br_id (ev_nu_tau ev)]"
  by (simp add: define_process_def add_ham_part_Tau_def addParticle_def addVertex_def
      new_Process_def truth_particle_def particle_def Let_def)

lemma b_id_fix_exact:
  assumes "product_fits b d"
  shows "b_id_fix b d = (if same_sign b d then - b else b)"
proof -
  have "0 <s b * d \<longleftrightarrow> 0 < sint b * sint d"
    by (simp add: word_sless_alt sint_mult_exact [OF assms])
  also have "\<dots> \<longleftrightarrow> same_sign b d"
    by (auto simp: same_sign_def word_sless_alt zero_less_mult_iff)
  finally show ?thesis by (simp add: b_id_fix_def)
qed

lemma sint_neg_same_sign:
  assumes "product_fits b d" "same_sign b d"
  shows "sint (- b) = - sint b"
proof -
  have "sint b \<noteq> - (2 ^ 31)"
  proof
    assume b: "sint b = - (2 ^ 31)"
    with assms(2) have "sint d < 0" by (auto simp: same_sign_def word_sless_alt)
    then have "sint d \<le> - 1" by simp
    then have "sint b * sint d \<ge> 2 ^ 31" 
      using b by simp
    with assms(1) show False by (simp add: product_fits_def)
  qed
  moreover have "- (2 ^ 31) \<le> sint b" using sint_ge [of b] by simp
  moreover have "sint b < 2 ^ 31" using sint_lt [of b] by simp
  ultimately show ?thesis
    by (simp add: sint_word_ariths signed_take_bit_int_eq_self)
qed

lemma M2_invariant_mass_squared: "M2 t = invariant_mass_squared t"
  by (simp add: M2_def v3_Mag2_def invariant_mass_squared_def)

lemma lv_minus_difference: "lv_minus p r = four_momentum_difference p r"
  by (simp add: lv_minus_def four_momentum_difference_def SetPxPyPzE_def)

lemma compute_keeps_numbers:
  "ulongs (compute_q2_mm2_el ev h) = ulongs h" "uints (compute_q2_mm2_el ev h) = uints h"
  by (simp_all add: compute_q2_mm2_el_def calc_true_fit_vars_def Let_def)

lemma compute_velocity:
  "vec3s (compute_q2_mm2_el ev h) b_lab_v =
     \<lparr>fX = ddiv (true_px (ev_b ev)) (true_pe (ev_b ev)),
      fY = ddiv (true_py (ev_b ev)) (true_pe (ev_b ev)),
      fZ = ddiv (true_pz (ev_b ev)) (true_pe (ev_b ev))\<rparr>"
  by (simp add: compute_q2_mm2_el_def calc_true_fit_vars_def Let_def)

lemma compute_el:
  "doubles (compute_q2_mm2_el ev h) el_out =
     ddiv (fE (Boost (v3_neg (vec3s (compute_q2_mm2_el ev h) b_lab_v)) (truth_mom (ev_mu ev))))
       (Num 1000)"
  by (simp add: compute_q2_mm2_el_def calc_true_fit_vars_def Let_def)

lemma el_of_parent_at_rest:
  assumes "true_px (ev_b ev) = Num 0" "true_py (ev_b ev) = Num 0" "true_pz (ev_b ev) = Num 0"
    and "true_pe (ev_b ev) = Num e" "e \<noteq> 0"
    and "is_finite (true_px (ev_mu ev))" "is_finite (true_py (ev_mu ev))"
      "is_finite (true_pz (ev_mu ev))"
    and "is_double (true_pe (ev_mu ev))"
  shows "doubles (compute_q2_mm2_el ev h) el_out = ddiv (true_pe (ev_mu ev)) (Num 1000)"
proof -
  have v: "vec3s (compute_q2_mm2_el ev h) b_lab_v = \<lparr>fX = Num 0, fY = Num 0, fZ = Num 0\<rparr>"
    using assms(1-5) by (simp add: compute_velocity to_double_0)
  have "fE (Boost \<lparr>fX = Num 0, fY = Num 0, fZ = Num 0\<rparr> (truth_mom (ev_mu ev))) =
          true_pe (ev_mu ev)"
    using Boost_zero_energy [OF assms(6-9)] by (simp add: truth_mom_def SetPxPyPzE_def)
  then show ?thesis by (simp add: compute_el v v3_neg_def)
qed

lemma event_output:
  "output_tree (reweight_event api ev s) =
     (if submission api ev s \<noteq> 0
      then Fill (vars (reweight_event api ev s)) (output_tree s) else output_tree s)"
  by (simp add: reweight_event_def submission_def Let_def split: prod.splits)

lemma event_cout:
  "cout (reweight_event api ev s) =
     (if submission api ev s \<noteq> 0 \<and> dgt (retrieved_weight api ev s) (Num 10)
      then cout s @ [Problematic_weight (retrieved_weight api ev s) (eventNumber ev)]
      else cout s)"
  by (simp add: reweight_event_def submission_def retrieved_weight_def Let_def split: prod.splits)

lemma event_vars:
  "ulongs (vars (reweight_event api ev s)) eventNumber_out = eventNumber ev"
  "uints (vars (reweight_event api ev s)) runNumber_out = runNumber ev"
  "vec3s (vars (reweight_event api ev s)) = vec3s (compute_q2_mm2_el ev (vars s))"
  "lvecs (vars (reweight_event api ev s)) = lvecs (compute_q2_mm2_el ev (vars s))"
  "doubles (vars (reweight_event api ev s)) q2_out = doubles (compute_q2_mm2_el ev (vars s)) q2_out"
  "doubles (vars (reweight_event api ev s)) mm2_out = doubles (compute_q2_mm2_el ev (vars s)) mm2_out"
  "doubles (vars (reweight_event api ev s)) el_out = doubles (compute_q2_mm2_el ev (vars s)) el_out"
  by (simp_all add: reweight_event_def Let_def compute_keeps_numbers
      compute_q2_mm2_el_def calc_true_fit_vars_def split: prod.splits)

lemma event_weight:
  "submission api ev s \<noteq> 0 \<Longrightarrow>
     doubles (vars (reweight_event api ev s)) w_ff_out = retrieved_weight api ev s"
  by (auto simp: reweight_event_def submission_def retrieved_weight_def Let_def split: prod.splits)

subsection \<open>The event loop\<close>

lemma loop_output:
  "map (\<lambda>r. (row_eventNumber r, row_runNumber r)) (output_tree (reweight_loop api evs s)) =
     map (\<lambda>r. (row_eventNumber r, row_runNumber r)) (output_tree s) @
     map (\<lambda>(ev, proc_id, w). (eventNumber ev, runNumber ev))
       (filter (\<lambda>(ev, proc_id, w). proc_id \<noteq> 0) (run_trace api evs s))"
proof (induction evs arbitrary: s)
  case Nil
  then show ?case by simp
next
  case (Cons ev evs)
  show ?case
    by (simp add: Cons.IH event_output Fill_def event_vars)
qed

lemma run_trace_events: "map fst (run_trace api evs s) = evs"
  by (induction evs arbitrary: s) simp_all

lemma loop_cout:
  "cout (reweight_loop api evs s) =
     cout s @ map (\<lambda>(ev, proc_id, w). Problematic_weight w (eventNumber ev))
       (filter (\<lambda>(ev, proc_id, w). proc_id \<noteq> 0 \<and> dgt w (Num 10)) (run_trace api evs s))"
  by (induction evs arbitrary: s) (simp_all add: event_cout)

lemma run_diagnostics:
  "snd (reweight api hm h evs) =
     map (\<lambda>(ev, proc_id, w). Problematic_weight w (eventNumber ev))
       (filter (\<lambda>(ev, proc_id, w). proc_id \<noteq> 0 \<and> dgt w (Num 10))
          (run_trace api evs (start hm h)))"
  using loop_cout [of api evs "start hm h"]
  by (simp add: reweight_def start_def Let_def)

subsection \<open>Zero parent energy\<close>

lemma zero_energy_velocity:
  assumes "true_pe (ev_b ev) = Num 0"
  shows "\<not> is_finite (fX (vec3s (compute_q2_mm2_el ev h) b_lab_v))"
    and "\<not> is_finite (fY (vec3s (compute_q2_mm2_el ev h) b_lab_v))"
    and "\<not> is_finite (fZ (vec3s (compute_q2_mm2_el ev h) b_lab_v))"
  by (simp_all add: compute_velocity assms ddiv_zero_not_finite)

lemma zero_energy_el:
  assumes "true_pe (ev_b ev) = Num 0"
  shows "doubles (compute_q2_mm2_el ev h) el_out = NaN"
proof -
  have "fE (Boost (v3_neg (vec3s (compute_q2_mm2_el ev h) b_lab_v)) (truth_mom (ev_mu ev))) = NaN"
    by (rule Boost_not_finite)
      (simp_all add: v3_neg_def dneg_not_finite zero_energy_velocity [OF assms])
  then show ?thesis by (simp add: compute_el)
qed

subsection \<open>The sample evaluator\<close>

lemma sample_submission_any:
  "submission sample_hammer (sample_event n b d e) s = (if b_id_fix b d = 511 then 1 else 0)"
  by (simp add: submission_def sample_hammer_def define_process_def add_ham_part_Tau_def
      addParticle_def addVertex_def new_Process_def truth_particle_def particle_def
      sample_event_def sample_truth_def)

lemma sample_weight_any:
  "retrieved_weight sample_hammer (sample_event n b d e) s = Num e"
  by (simp add: retrieved_weight_def sample_hammer_def define_process_def add_ham_part_Tau_def
      addParticle_def addVertex_def new_Process_def truth_particle_def particle_def
      sample_event_def sample_truth_def)

subsection \<open>The accumulated total\<close>

lemma foldl_lv_plus_eq_components:
  "fX (fP (foldl lv_plus_eq t qs)) = foldl dadd (fX (fP t)) (map (\<lambda>q. fX (fP q)) qs)"
  "fY (fP (foldl lv_plus_eq t qs)) = foldl dadd (fY (fP t)) (map (\<lambda>q. fY (fP q)) qs)"
  "fZ (fP (foldl lv_plus_eq t qs)) = foldl dadd (fZ (fP t)) (map (\<lambda>q. fZ (fP q)) qs)"
  "fE (foldl lv_plus_eq t qs) = foldl dadd (fE t) (map fE qs)"
  by (induction qs arbitrary: t) (simp_all add: lv_plus_eq_def)

lemma exact_total:
  assumes "exact_sums ps"
  shows "foldl lv_plus_eq (SetPxPyPzE (Num 0) (Num 0) (Num 0) (Num 0)) ps =
     SetPxPyPzE (Num (sum_list (map (\<lambda>q. value_of (fX (fP q))) ps)))
       (Num (sum_list (map (\<lambda>q. value_of (fY (fP q))) ps)))
       (Num (sum_list (map (\<lambda>q. value_of (fZ (fP q))) ps)))
       (Num (sum_list (map (\<lambda>q. value_of (fE q)) ps)))"
proof -
  let ?t = "foldl lv_plus_eq (SetPxPyPzE (Num 0) (Num 0) (Num 0) (Num 0)) ps"
  from assms have
    "exact_fold (Num 0) (map (\<lambda>q. fX (fP q)) ps)" "exact_fold (Num 0) (map (\<lambda>q. fY (fP q)) ps)"
    "exact_fold (Num 0) (map (\<lambda>q. fZ (fP q)) ps)" "exact_fold (Num 0) (map fE ps)"
    by (simp_all add: exact_sums_def)
  from this [THEN exact_fold_sum] have
    "fX (fP ?t) = Num (sum_list (map (\<lambda>q. value_of (fX (fP q))) ps))"
    "fY (fP ?t) = Num (sum_list (map (\<lambda>q. value_of (fY (fP q))) ps))"
    "fZ (fP ?t) = Num (sum_list (map (\<lambda>q. value_of (fZ (fP q))) ps))"
    "fE ?t = Num (sum_list (map (\<lambda>q. value_of (fE q)) ps))"
    by (simp_all add: foldl_lv_plus_eq_components SetPxPyPzE_def comp_def)
  then show ?thesis
    by (simp add: SetPxPyPzE_def TLorentzVector.equality TVector3.equality)
qed

section \<open>The claims\<close>

text \<open>
  C1, as the program has it: when the exact product of the parent's and the resonance's
  type codes fits an \<^verbatim>\<open>Int_t\<close>, the parent's code is negated if the two codes have the
  same sign and is passed unchanged otherwise; the codes of the ten other particles are
  always passed to the evaluator as recorded. Where the codes have the same sign, the
  negation is the exact negative.
\<close>

theorem sign_correction_when_product_fits:
  assumes "product_fits (br_id (ev_b ev)) (br_id (ev_dst ev))"
  shows "map part_id (proc_particles (define_process ev)) =
     [if same_sign (br_id (ev_b ev)) (br_id (ev_dst ev))
      then - br_id (ev_b ev) else br_id (ev_b ev),
      br_id (ev_dst ev), br_id (ev_spi ev), br_id (ev_d0 ev), br_id (ev_k ev),
      br_id (ev_pi ev), br_id (ev_mu ev), br_id (ev_tau ev), br_id (ev_anu_mu ev),
      br_id (ev_anu_tau ev), br_id (ev_nu_tau ev)] \<and>
    (same_sign (br_id (ev_b ev)) (br_id (ev_dst ev)) \<longrightarrow>
       sint (- br_id (ev_b ev)) = - sint (br_id (ev_b ev)))"
  using assms by (simp add: define_process_ids b_id_fix_exact sint_neg_same_sign)

theorem sign_correction_when_product_fits_witness:
  "product_fits (- 511) (- 413) \<and> same_sign (- 511) (- 413) \<and>
   map part_id (proc_particles (define_process (sample_event 7 (- 511) (- 413) 5279))) =
     [511, - 413, - 211, - 421, 321, - 211, - 13, - 15, - 14, - 16, 16]"
proof -
  have f: "product_fits (br_id (ev_b (sample_event 7 (- 511) (- 413) 5279)))
             (br_id (ev_dst (sample_event 7 (- 511) (- 413) 5279)))"
    by (simp add: product_fits_def sample_event_def sample_truth_def)
  show ?thesis
    using sign_correction_when_product_fits [OF f]
    by (simp add: product_fits_def same_sign_def word_sless_alt sample_event_def sample_truth_def)
qed

text \<open>
  C1 as stated fails when the product does not fit: for the codes 65536 and 65536, which
  have the same sign, the 32-bit product is 0, and the parent's code is passed on as it is.
\<close>

theorem sign_correction_overflow_counterexample:
  "same_sign 65536 65536 \<and> b_id_fix 65536 65536 = 65536 \<and> (65536 :: Int_t) \<noteq> - 65536 \<and>
   part_id (hd (proc_particles (define_process (sample_event 7 65536 65536 5279)))) = 65536"
  by (simp add: same_sign_def word_sless_alt b_id_fix_def define_process_def add_ham_part_Tau_def
      addParticle_def addVertex_def new_Process_def truth_particle_def particle_def
      sample_event_def sample_truth_def)

text \<open>
  C10: if the parent's code or the resonance's code is 0, the product is not positive and
  the parent's code reaches the process unchanged.
\<close>

theorem zero_code_left_unchanged:
  assumes "br_id (ev_b ev) = 0 \<or> br_id (ev_dst ev) = 0"
  shows "\<not> 0 <s br_id (ev_b ev) * br_id (ev_dst ev) \<and>
    b_id_fix (br_id (ev_b ev)) (br_id (ev_dst ev)) = br_id (ev_b ev) \<and>
    part_id (hd (proc_particles (define_process ev))) = br_id (ev_b ev)"
proof -
  from assms have z: "br_id (ev_b ev) * br_id (ev_dst ev) = 0" by auto
  have "hd (map part_id (proc_particles (define_process ev))) =
          b_id_fix (br_id (ev_b ev)) (br_id (ev_dst ev))"
    by (simp add: define_process_ids)
  moreover have "proc_particles (define_process ev) \<noteq> []"
    using define_process_ids [of ev] by auto
  ultimately have "part_id (hd (proc_particles (define_process ev))) =
          b_id_fix (br_id (ev_b ev)) (br_id (ev_dst ev))"
    by (simp add: hd_map)
  then show ?thesis by (simp add: b_id_fix_def z)
qed

theorem zero_code_left_unchanged_witness:
  "(br_id (ev_b (sample_event 7 511 0 5279)) = 0 \<or>
    br_id (ev_dst (sample_event 7 511 0 5279)) = 0) \<and>
   part_id (hd (proc_particles (define_process (sample_event 7 511 0 5279)))) = 511 \<and>
   b_id_fix 0 (- 413) = 0 \<and> b_id_fix 511 0 = 511"
proof -
  have h: "br_id (ev_b (sample_event 7 511 0 5279)) = 0 \<or>
           br_id (ev_dst (sample_event 7 511 0 5279)) = 0"
    by (simp add: sample_event_def sample_truth_def)
  show ?thesis
    using zero_code_left_unchanged [OF h]
    by (simp add: sample_event_def sample_truth_def b_id_fix_def)
qed

text \<open>
  C9: on the empty collection \<^verbatim>\<open>calc_mm2_with_nu\<close> returns 0.
\<close>

theorem invisible_mass_squared_of_nothing: "calc_mm2_with_nu [] = Num 0"
  by (simp add: calc_mm2_with_nu_def SetPxPyPzE_def M2_def v3_Mag2_def dsub_def to_double_0)

text \<open>
  C4: the value that \<^verbatim>\<open>calc_true_fit_vars\<close> stores through \<open>q2\<close> is the momentum
  transfer squared of the specification, the invariant mass-squared of parent minus
  resonance divided by \<open>1e6\<close>, whatever the velocity and the lepton momentum are (no
  boost enters it), provided \<open>q2\<close> and \<open>el\<close> are different variables; in
  \<^verbatim>\<open>reweight\<close>, where they are, \<open>q2_out\<close> receives the momentum transfer squared of the
  recorded parent and resonance momenta.
\<close>

theorem q2_is_momentum_transfer_squared:
  assumes "q2 \<noteq> el"
  shows "doubles (calc_true_fit_vars h q2 el v b d mu) q2 =
           momentum_transfer_squared (lvecs h b) (lvecs h d) \<and>
         doubles (compute_q2_mm2_el ev h) q2_out =
           momentum_transfer_squared (truth_mom (ev_b ev)) (truth_mom (ev_dst ev))"
  using assms
  by (simp add: calc_true_fit_vars_def compute_q2_mm2_el_def Let_def
      momentum_transfer_squared_def M2_invariant_mass_squared lv_minus_difference)

theorem q2_is_momentum_transfer_squared_witness:
  "q2_out \<noteq> el_out \<and>
   doubles (calc_true_fit_vars
     (sample_heap\<lparr>lvecs := (lvecs sample_heap)
        (b_mom := SetPxPyPzE (Num 0) (Num 0) (Num 0) (Num 3000),
         dst_mom := SetPxPyPzE (Num 0) (Num 0) (Num 0) (Num 1000))\<rparr>)
     q2_out el_out b_lab_v b_mom dst_mom (SetPxPyPzE (Num 3) (Num 4) (Num 0) (Num 1000))) q2_out
     = Num 4"
proof -
  have h: "q2_out \<noteq> el_out" by simp
  show ?thesis
    using q2_is_momentum_transfer_squared [OF h, of
        "sample_heap\<lparr>lvecs := (lvecs sample_heap)
           (b_mom := SetPxPyPzE (Num 0) (Num 0) (Num 0) (Num 3000),
            dst_mom := SetPxPyPzE (Num 0) (Num 0) (Num 0) (Num 1000))\<rparr>"
        b_lab_v b_mom dst_mom "SetPxPyPzE (Num 3) (Num 4) (Num 0) (Num 1000)"]
    by (simp add: momentum_transfer_squared_def invariant_mass_squared_def
        four_momentum_difference_def SetPxPyPzE_def dsub_def to_double_0 to_double_numeral)
qed

text \<open>
  C7, as the program has it: with a zero boost velocity \<^verbatim>\<open>calc_true_fit_vars\<close> stores
  through \<open>el\<close> the lepton's lab-frame energy divided by 1000, for every lepton
  four-momentum whose spatial components are finite numbers (the energy being any
  \<^verbatim>\<open>Double_t\<close> value).
\<close>

theorem zero_boost_returns_lab_energy:
  assumes "vec3s h v = \<lparr>fX = Num 0, fY = Num 0, fZ = Num 0\<rparr>"
    and "is_finite (fX (fP mu))" "is_finite (fY (fP mu))" "is_finite (fZ (fP mu))"
    and "is_double (fE mu)"
  shows "doubles (calc_true_fit_vars h q2 el v b d mu) el = ddiv (fE mu) (Num 1000)"
proof -
  have mu: "mu = \<lparr>fP = \<lparr>fX = fX (fP mu), fY = fY (fP mu), fZ = fZ (fP mu)\<rparr>, fE = fE mu\<rparr>"
    by simp
  have "fE (Boost (v3_neg (vec3s h v)) mu) = fE mu"
    using Boost_zero_energy [OF assms(2-5)] mu by (simp add: assms(1) v3_neg_def)
  then show ?thesis by (simp add: calc_true_fit_vars_def Let_def)
qed

theorem zero_boost_returns_lab_energy_witness:
  "vec3s sample_heap b_lab_v = \<lparr>fX = Num 0, fY = Num 0, fZ = Num 0\<rparr> \<and>
   is_finite (Num 3) \<and> is_finite (Num 4) \<and> is_finite (Num 0) \<and> is_double (Num 1000) \<and>
   doubles (calc_true_fit_vars sample_heap q2_out el_out b_lab_v b_mom dst_mom
     (SetPxPyPzE (Num 3) (Num 4) (Num 0) (Num 1000))) el_out = Num 1"
proof -
  have v: "vec3s sample_heap b_lab_v = \<lparr>fX = Num 0, fY = Num 0, fZ = Num 0\<rparr>"
    by (simp add: sample_heap_def)
  have d: "is_double (fE (SetPxPyPzE (Num 3) (Num 4) (Num 0) (Num 1000)))"
    by (simp add: SetPxPyPzE_def to_double_numeral)
  have f: "is_finite (fX (fP (SetPxPyPzE (Num 3) (Num 4) (Num 0) (Num 1000))))"
    "is_finite (fY (fP (SetPxPyPzE (Num 3) (Num 4) (Num 0) (Num 1000))))"
    "is_finite (fZ (fP (SetPxPyPzE (Num 3) (Num 4) (Num 0) (Num 1000))))"
    by (simp_all add: SetPxPyPzE_def)
  show ?thesis
    using zero_boost_returns_lab_energy [OF v f d, of q2_out el_out b_mom dst_mom] v
    by (simp add: SetPxPyPzE_def to_double_numeral to_double_1)
qed

text \<open>
  C7 as stated fails for a lepton momentum with a component that is no finite number:
  with a zero boost velocity and \<open>px\<close> infinite, \<^verbatim>\<open>Boost\<close> multiplies zero by the
  infinity, the boosted energy is a NaN and so is \<open>el\<close>, while the lab-frame energy
  1000 divided by 1000 is 1.
\<close>

theorem zero_boost_infinite_momentum_counterexample:
  "vec3s sample_heap b_lab_v = \<lparr>fX = Num 0, fY = Num 0, fZ = Num 0\<rparr> \<and>
   doubles (calc_true_fit_vars sample_heap q2_out el_out b_lab_v b_mom dst_mom
     (SetPxPyPzE PosInf (Num 0) (Num 0) (Num 1000))) el_out = NaN \<and>
   ddiv (fE (SetPxPyPzE PosInf (Num 0) (Num 0) (Num 1000))) (Num 1000) = Num 1 \<and>
   doubles (calc_true_fit_vars sample_heap q2_out el_out b_lab_v b_mom dst_mom
     (SetPxPyPzE PosInf (Num 0) (Num 0) (Num 1000))) el_out \<noteq>
   ddiv (fE (SetPxPyPzE PosInf (Num 0) (Num 0) (Num 1000))) (Num 1000)"
  by (simp add: calc_true_fit_vars_def Let_def Boost_def v3_neg_def sample_heap_def
      SetPxPyPzE_def dsub_def to_double_0 to_double_1 to_double_numeral)

text \<open>
  C8: \<^verbatim>\<open>calc_true_fit_vars\<close>, called with a copy of the lepton momentum stored at \<open>m\<close>,
  leaves every \<^verbatim>\<open>TLorentzVector\<close> and every \<^verbatim>\<open>TVector3\<close> of the caller as it was, the
  parent's and the lepton's among them; the boost goes into the copy, whose energy is
  what \<open>el\<close> receives. In \<^verbatim>\<open>reweight\<close>, \<open>b_mom\<close> and \<open>mu_mom\<close> hold the recorded momenta
  after the call.
\<close>

theorem boost_leaves_caller_momenta:
  "lvecs (calc_true_fit_vars h q2 el v b d (lvecs h m)) = lvecs h \<and>
   vec3s (calc_true_fit_vars h q2 el v b d (lvecs h m)) = vec3s h \<and>
   doubles (calc_true_fit_vars h q2 el v b d (lvecs h m)) el =
     ddiv (fE (Boost (v3_neg (vec3s h v)) (lvecs h m))) (Num 1000) \<and>
   lvecs (compute_q2_mm2_el ev h) b_mom = truth_mom (ev_b ev) \<and>
   lvecs (compute_q2_mm2_el ev h) mu_mom = truth_mom (ev_mu ev)"
  by (simp add: calc_true_fit_vars_def compute_q2_mm2_el_def Let_def)

text \<open>
  C3: the output tree holds one row for each event of the input whose submission returned
  a nonzero identifier and none for the others, in the order of the input: the event and
  run numbers of its rows are those of the trace of the run, filtered by a nonzero
  identifier. The trace has an entry for every event of the input, so that an event
  with identifier zero is passed over and the run goes on; and nothing is printed for
  such an event: the diagnostics are those of the events with a nonzero identifier and a
  weight greater than 10.
\<close>

theorem one_row_per_accepted_event:
  "map (\<lambda>r. (row_eventNumber r, row_runNumber r)) (fst (reweight api hm h evs)) =
     map (\<lambda>(ev, proc_id, w). (eventNumber ev, runNumber ev))
       (filter (\<lambda>(ev, proc_id, w). proc_id \<noteq> 0) (run_trace api evs (start hm h))) \<and>
   length (fst (reweight api hm h evs)) =
     length (filter (\<lambda>(ev, proc_id, w). proc_id \<noteq> 0) (run_trace api evs (start hm h))) \<and>
   map fst (run_trace api evs (start hm h)) = evs \<and>
   snd (reweight api hm h evs) =
     map (\<lambda>(ev, proc_id, w). Problematic_weight w (eventNumber ev))
       (filter (\<lambda>(ev, proc_id, w). proc_id \<noteq> 0 \<and> dgt w (Num 10))
          (run_trace api evs (start hm h)))"
proof -
  have m: "map (\<lambda>r. (row_eventNumber r, row_runNumber r)) (fst (reweight api hm h evs)) =
     map (\<lambda>(ev, proc_id, w). (eventNumber ev, runNumber ev))
       (filter (\<lambda>(ev, proc_id, w). proc_id \<noteq> 0) (run_trace api evs (start hm h)))"
    using loop_output [of api evs "start hm h"] by (simp add: reweight_def start_def Let_def)
  have l: "length (fst (reweight api hm h evs)) =
     length (filter (\<lambda>(ev, proc_id, w). proc_id \<noteq> 0) (run_trace api evs (start hm h)))"
    using arg_cong [OF m, of length] by simp
  from m l show ?thesis by (simp add: run_trace_events run_diagnostics)
qed

theorem one_row_per_accepted_event_witness:
  "map (\<lambda>r. (row_eventNumber r, row_runNumber r))
     (fst (reweight sample_hammer (Num 0) sample_heap
        [sample_event 1 (- 511) (- 413) 5, sample_event 2 521 (- 413) 5279,
         sample_event 3 511 (- 413) 5279])) = [(1, 1), (3, 1)] \<and>
   length (fst (reweight sample_hammer (Num 0) sample_heap
        [sample_event 1 (- 511) (- 413) 5, sample_event 2 521 (- 413) 5279,
         sample_event 3 511 (- 413) 5279])) = 2 \<and>
   snd (reweight sample_hammer (Num 0) sample_heap
        [sample_event 1 (- 511) (- 413) 5, sample_event 2 521 (- 413) 5279,
         sample_event 3 511 (- 413) 5279]) = [Problematic_weight (Num 5279) 3]"
proof -
  have e: "eventNumber (sample_event n b d x) = n" "runNumber (sample_event n b d x) = 1"
    for n b d x by (simp_all add: sample_event_def)
  show ?thesis
    using one_row_per_accepted_event [of sample_hammer "Num 0" sample_heap
        "[sample_event 1 (- 511) (- 413) 5, sample_event 2 521 (- 413) 5279,
          sample_event 3 511 (- 413) 5279]"]
    by (simp add: sample_submission_any sample_weight_any b_id_fix_def word_sless_alt e)
qed

text \<open>
  C6: for an event whose submission returned a nonzero identifier, the row is appended
  with the retrieved weight as it is; the diagnostic, the weight and the event number, is
  printed if the weight is greater than 10 and nothing is printed otherwise; and the loop
  goes on with the remaining events.
\<close>

theorem anomalous_weight_is_reported_and_kept:
  assumes "submission api ev s \<noteq> 0"
  shows "output_tree (reweight_event api ev s) =
           output_tree s @ [last (output_tree (reweight_event api ev s))] \<and>
         row_eventNumber (last (output_tree (reweight_event api ev s))) = eventNumber ev \<and>
         row_w_ff (last (output_tree (reweight_event api ev s))) = retrieved_weight api ev s \<and>
         cout (reweight_event api ev s) =
           (if dgt (retrieved_weight api ev s) (Num 10)
            then cout s @ [Problematic_weight (retrieved_weight api ev s) (eventNumber ev)]
            else cout s) \<and>
         reweight_loop api (ev # evs) s = reweight_loop api evs (reweight_event api ev s)"
  using assms by (simp add: event_output event_cout Fill_def event_vars event_weight)

theorem anomalous_weight_is_reported_and_kept_witness:
  "submission sample_hammer (sample_event 4 511 (- 413) 5279) (start (Num 0) sample_heap)
     \<noteq> 0 \<and>
   dgt (Num 5279) (Num 10) \<and>
   map row_w_ff (output_tree (reweight_event sample_hammer (sample_event 4 511 (- 413) 5279)
     (start (Num 0) sample_heap))) = [Num 5279] \<and>
   cout (reweight_event sample_hammer (sample_event 4 511 (- 413) 5279)
     (start (Num 0) sample_heap)) = [Problematic_weight (Num 5279) 4] \<and>
   submission sample_hammer (sample_event 5 511 (- 413) 10) (start (Num 0) sample_heap)
     \<noteq> 0 \<and>
   \<not> dgt (Num 10) (Num 10) \<and>
   map row_w_ff (output_tree (reweight_event sample_hammer (sample_event 5 511 (- 413) 10)
     (start (Num 0) sample_heap))) = [Num 10] \<and>
   cout (reweight_event sample_hammer (sample_event 5 511 (- 413) 10)
     (start (Num 0) sample_heap)) = []"
proof -
  let ?s = "start (Num 0) sample_heap"
  have o: "output_tree ?s = []" "cout ?s = []"
    by (simp_all add: start_def)
  have e: "eventNumber (sample_event n b d x) = n" for n b d x
    by (simp add: sample_event_def)
  have h: "submission sample_hammer (sample_event n 511 (- 413) x) ?s \<noteq> 0" for n x
    by (simp add: sample_submission_any b_id_fix_def word_sless_alt)
  have r: "map row_w_ff
             (output_tree (reweight_event sample_hammer (sample_event n 511 (- 413) x) ?s)) =
             [Num x] \<and>
           cout (reweight_event sample_hammer (sample_event n 511 (- 413) x) ?s) =
             (if dgt (Num x) (Num 10) then [Problematic_weight (Num x) n] else [])" for n x
  proof -
    let ?out = "output_tree (reweight_event sample_hammer (sample_event n 511 (- 413) x) ?s)"
    note a = anomalous_weight_is_reported_and_kept [OF h [of n x], of "[]"]
    have out: "?out = [last ?out]" using a by (simp add: o)
    have w: "row_w_ff (last ?out) = Num x" using a by (simp add: sample_weight_any)
    have "map row_w_ff ?out = map row_w_ff [last ?out]"
      by (rule arg_cong [where f = "map row_w_ff"]) (rule out)
    then have "map row_w_ff ?out = [Num x]" by (simp add: w)
    then show ?thesis using a by (simp add: o e sample_weight_any)
  qed
  from h [of 4 5279] h [of 5 10] r [of 4 5279] r [of 5 10] show ?thesis by simp
qed

text \<open>
  C2, as the program has it: an event with parent energy zero is not rejected. The velocity
  is computed by the division, each component is an infinity or a NaN, and when the
  submission returns a nonzero identifier the row of the event is written, with a NaN as
  lepton energy.
\<close>

theorem zero_parent_energy_is_not_rejected:
  assumes "true_pe (ev_b ev) = Num 0" and "submission api ev s \<noteq> 0"
  shows "\<not> is_finite (fX (vec3s (vars (reweight_event api ev s)) b_lab_v)) \<and>
         \<not> is_finite (fY (vec3s (vars (reweight_event api ev s)) b_lab_v)) \<and>
         \<not> is_finite (fZ (vec3s (vars (reweight_event api ev s)) b_lab_v)) \<and>
         output_tree (reweight_event api ev s) =
           output_tree s @ [last (output_tree (reweight_event api ev s))] \<and>
         row_eventNumber (last (output_tree (reweight_event api ev s))) = eventNumber ev \<and>
         row_el_true (last (output_tree (reweight_event api ev s))) = NaN"
  using assms(2) zero_energy_velocity [OF assms(1)]
  by (simp add: event_output Fill_def event_vars zero_energy_el [OF assms(1)])

theorem zero_parent_energy_is_not_rejected_witness:
  "true_pe (ev_b (sample_event 2 511 (- 413) 0)) = Num 0 \<and>
   submission sample_hammer (sample_event 2 511 (- 413) 0) (start (Num 0) sample_heap) \<noteq> 0 \<and>
   vec3s (vars (reweight_event sample_hammer (sample_event 2 511 (- 413) 0)
     (start (Num 0) sample_heap))) b_lab_v = \<lparr>fX = NaN, fY = NaN, fZ = NaN\<rparr> \<and>
   map row_el_true (output_tree (reweight_event sample_hammer (sample_event 2 511 (- 413) 0)
     (start (Num 0) sample_heap))) = [NaN]"
proof -
  let ?ev = "sample_event 2 511 (- 413) 0"
  let ?s = "start (Num 0) sample_heap"
  let ?out = "output_tree (reweight_event sample_hammer ?ev ?s)"
  have z: "true_pe (ev_b ?ev) = Num 0" by (simp add: sample_event_def sample_truth_def)
  have h: "submission sample_hammer ?ev ?s \<noteq> 0"
    by (simp add: sample_submission_any b_id_fix_def word_sless_alt)
  note a = zero_parent_energy_is_not_rejected [OF z h]
  have out: "?out = [last ?out]" using a by (simp add: start_def)
  have "map row_el_true ?out = map row_el_true [last ?out]"
    by (rule arg_cong [where f = "map row_el_true"]) (rule out)
  then have rows: "map row_el_true ?out = [NaN]" using a by simp
  have v: "vec3s (vars (reweight_event sample_hammer ?ev ?s)) b_lab_v =
             \<lparr>fX = NaN, fY = NaN, fZ = NaN\<rparr>"
    by (simp add: event_vars compute_velocity sample_event_def sample_truth_def)
  from z h v rows show ?thesis by simp
qed

text \<open>
  C2 as stated fails: the sample event 2 has parent energy zero, the sample evaluator
  accepts it, and the output tree has its row, with lepton energy NaN.
\<close>

theorem zero_parent_energy_counterexample:
  "true_pe (ev_b (sample_event 2 511 (- 413) 0)) = Num 0 \<and>
   map row_eventNumber (fst (reweight sample_hammer (Num 0) sample_heap
     [sample_event 2 511 (- 413) 0])) = [2] \<and>
   map row_el_true (fst (reweight sample_hammer (Num 0) sample_heap
     [sample_event 2 511 (- 413) 0])) = [NaN]"
proof -
  let ?ev = "sample_event 2 511 (- 413) 0"
  have z: "true_pe (ev_b ?ev) = Num 0" by (simp add: sample_event_def sample_truth_def)
  have n: "eventNumber ?ev = 2" by (simp add: sample_event_def)
  show ?thesis
    by (simp add: reweight_def start_def Let_def event_output sample_submission_any
        b_id_fix_def word_sless_alt Fill_def event_vars zero_energy_el [OF z] z n)
qed

text \<open>
  C5, as the program has it: \<^verbatim>\<open>calc_mm2_with_nu\<close> gives the same result for two orders
  of the same four-momenta when the accumulation is exact in both orders, that is, when
  no addition of the loop rounds.
\<close>

theorem invisible_mass_squared_permutation_when_exact:
  assumes "mset ps = mset qs" and "exact_sums ps" and "exact_sums qs"
  shows "calc_mm2_with_nu ps = calc_mm2_with_nu qs"
  by (simp add: calc_mm2_with_nu_def Let_def exact_total [OF assms(2)] exact_total [OF assms(3)]
      sum_list_permuted [OF assms(1)])

theorem invisible_mass_squared_permutation_when_exact_witness:
  "mset [SetPxPyPzE (Num 1000) (Num 0) (Num 0) (Num 1000),
         SetPxPyPzE (Num 0) (Num 0) (Num 0) (Num 1500),
         SetPxPyPzE (Num 0) (Num 0) (Num 0) (Num 500)] =
   mset [SetPxPyPzE (Num 0) (Num 0) (Num 0) (Num 500),
         SetPxPyPzE (Num 1000) (Num 0) (Num 0) (Num 1000),
         SetPxPyPzE (Num 0) (Num 0) (Num 0) (Num 1500)] \<and>
   exact_sums [SetPxPyPzE (Num 1000) (Num 0) (Num 0) (Num 1000),
         SetPxPyPzE (Num 0) (Num 0) (Num 0) (Num 1500),
         SetPxPyPzE (Num 0) (Num 0) (Num 0) (Num 500)] \<and>
   exact_sums [SetPxPyPzE (Num 0) (Num 0) (Num 0) (Num 500),
         SetPxPyPzE (Num 1000) (Num 0) (Num 0) (Num 1000),
         SetPxPyPzE (Num 0) (Num 0) (Num 0) (Num 1500)] \<and>
   calc_mm2_with_nu [SetPxPyPzE (Num 1000) (Num 0) (Num 0) (Num 1000),
         SetPxPyPzE (Num 0) (Num 0) (Num 0) (Num 1500),
         SetPxPyPzE (Num 0) (Num 0) (Num 0) (Num 500)] = Num 8 \<and>
   calc_mm2_with_nu [SetPxPyPzE (Num 0) (Num 0) (Num 0) (Num 500),
         SetPxPyPzE (Num 1000) (Num 0) (Num 0) (Num 1000),
         SetPxPyPzE (Num 0) (Num 0) (Num 0) (Num 1500)] = Num 8"
proof -
  let ?ps = "[SetPxPyPzE (Num 1000) (Num 0) (Num 0) (Num 1000),
         SetPxPyPzE (Num 0) (Num 0) (Num 0) (Num 1500),
         SetPxPyPzE (Num 0) (Num 0) (Num 0) (Num 500)]"
  let ?qs = "[SetPxPyPzE (Num 0) (Num 0) (Num 0) (Num 500),
         SetPxPyPzE (Num 1000) (Num 0) (Num 0) (Num 1000),
         SetPxPyPzE (Num 0) (Num 0) (Num 0) (Num 1500)]"
  have m: "mset ?ps = mset ?qs" by simp
  have p: "exact_sums ?ps"
    by (simp add: exact_sums_def SetPxPyPzE_def to_double_0 to_double_numeral)
  have q: "exact_sums ?qs"
    by (simp add: exact_sums_def SetPxPyPzE_def to_double_0 to_double_numeral)
  have v: "calc_mm2_with_nu ?ps = Num 8"
    by (simp add: calc_mm2_with_nu_def SetPxPyPzE_def lv_plus_eq_def M2_def v3_Mag2_def dsub_def
        to_double_0 to_double_numeral)
  from invisible_mass_squared_permutation_when_exact [OF m p q] m p q v show ?thesis
    by (simp only: simp_thms)
qed

text \<open>
  C5 as stated fails, because the additions round: for a momentum with energy and
  \<open>px\<close> equal to \<open>2 ^ 53\<close> and two momenta at rest with energy 1, the total energy is
  \<open>2 ^ 53\<close> when the large momentum comes first and \<open>2 ^ 53 + 2\<close> when it comes last,
  and the results are 0 and about \<open>3.6e10\<close>.
\<close>

theorem invisible_mass_squared_order_counterexample:
  "mset [SetPxPyPzE (Num 9007199254740992) (Num 0) (Num 0) (Num 9007199254740992),
         SetPxPyPzE (Num 0) (Num 0) (Num 0) (Num 1),
         SetPxPyPzE (Num 0) (Num 0) (Num 0) (Num 1)] =
   mset [SetPxPyPzE (Num 0) (Num 0) (Num 0) (Num 1),
         SetPxPyPzE (Num 0) (Num 0) (Num 0) (Num 1),
         SetPxPyPzE (Num 9007199254740992) (Num 0) (Num 0) (Num 9007199254740992)] \<and>
   calc_mm2_with_nu
     [SetPxPyPzE (Num 9007199254740992) (Num 0) (Num 0) (Num 9007199254740992),
      SetPxPyPzE (Num 0) (Num 0) (Num 0) (Num 1),
      SetPxPyPzE (Num 0) (Num 0) (Num 0) (Num 1)] = Num 0 \<and>
   calc_mm2_with_nu
     [SetPxPyPzE (Num 0) (Num 0) (Num 0) (Num 1),
      SetPxPyPzE (Num 0) (Num 0) (Num 0) (Num 1),
      SetPxPyPzE (Num 9007199254740992) (Num 0) (Num 0) (Num 9007199254740992)] =
     Num (4722366482869645 / 131072) \<and>
   calc_mm2_with_nu
     [SetPxPyPzE (Num 9007199254740992) (Num 0) (Num 0) (Num 9007199254740992),
      SetPxPyPzE (Num 0) (Num 0) (Num 0) (Num 1),
      SetPxPyPzE (Num 0) (Num 0) (Num 0) (Num 1)] \<noteq>
   calc_mm2_with_nu
     [SetPxPyPzE (Num 0) (Num 0) (Num 0) (Num 1),
      SetPxPyPzE (Num 0) (Num 0) (Num 0) (Num 1),
      SetPxPyPzE (Num 9007199254740992) (Num 0) (Num 0) (Num 9007199254740992)]"
  by (simp add: calc_mm2_with_nu_def SetPxPyPzE_def lv_plus_eq_def M2_def v3_Mag2_def dsub_def
      to_double_def rnd64_samples)

end
